theory Spec2Isabelle
  imports Main "HOL-Library.AList"
begin

section \<open>The concept library: a record store with a rebuilt nearest-neighbour index\<close>

text \<open>
  The development embeds \<^verbatim>\<open>concept_library.py\<close>: the class \<^verbatim>\<open>SQLiteStorage\<close> (a table
  \<^verbatim>\<open>concepts\<close> in SQLite, an Annoy index kept beside it in a file) and the facade
  \<^verbatim>\<open>ConceptLibrary\<close>. Methods become functions that take the instance and return the
  outcome together with the instance as the call leaves it, so that what a raising call
  has already changed stays visible.

  The libraries the program calls are not part of it. Their pure functions are fields of
  an environment record that every operation receives; the objects the program holds (the
  table, the index object, the index file) are modelled by their contents.

  The model covers an instance from its construction to \<^verbatim>\<open>close\<close>, on an open connection.
  Of the ways SQLite and the file system can fail it has the exhaustion of rowids, a
  path that cannot be written and an index file without content; a transaction that fails
  to commit is not modelled.
\<close>

subsection \<open>Exceptions\<close>

datatype error =
  TypeError           \<comment> \<open>\<^verbatim>\<open>json.dumps\<close> on a value it cannot serialize; a value that is no vector\<close>
  | JSONDecodeError   \<comment> \<open>\<^verbatim>\<open>json.loads\<close> on a text that is not JSON\<close>
  | OverflowError     \<comment> \<open>Annoy: an item number or a tree count that does not fit a C \<^verbatim>\<open>int\<close>\<close>
  | IndexError        \<comment> \<open>Annoy: vector of the wrong length, negative item number\<close>
  | AnnoyError        \<comment> \<open>Annoy's plain \<^verbatim>\<open>Exception\<close>: adding to or building a loaded index, building a built one\<close>
  | OSError           \<comment> \<open>the index file cannot be read or written; saving an index that is not built\<close>
  | OperationalError  \<comment> \<open>SQLite: no rowid left for an \<^verbatim>\<open>AUTOINCREMENT\<close> column\<close>
  | NoReturn          \<comment> \<open>no exception: the call does not come back\<close>

subsection \<open>The Annoy index object\<close>

datatype metric = Angular | Euclidean | Manhattan | Hamming | Dot

text \<open>
  An \<^verbatim>\<open>AnnoyIndex(f, metric)\<close> object: the vector length and the metric it was constructed
  with, the items added so far (item number and vector, one entry per item number), the
  number of trees, whether the trees are built, and whether the index has been loaded from
  a file. The nodes of an index are its items and its trees; a saved index is reloaded from
  its file, so it is a loaded one.
\<close>

record 'f annoy =
  idx_dim :: nat
  idx_metric :: metric
  idx_items :: "(int \<times> 'f list) list"
  idx_trees :: nat
  idx_built :: bool
  idx_loaded :: bool

definition AnnoyIndex :: "nat \<Rightarrow> metric \<Rightarrow> 'f annoy" where
  "AnnoyIndex f m =
     \<lparr>idx_dim = f, idx_metric = m, idx_items = [], idx_trees = 0,
      idx_built = False, idx_loaded = False\<rparr>"

definition unload :: "'f annoy \<Rightarrow> 'f annoy" where
  "unload a = a\<lparr>idx_items := [], idx_trees := 0, idx_built := False, idx_loaded := False\<rparr>"

text \<open>The Python wrapper reads item numbers and tree counts as C \<^verbatim>\<open>int\<close>s.\<close>

definition in_c_int :: "int \<Rightarrow> bool" where
  "in_c_int i \<longleftrightarrow> - 2147483648 \<le> i \<and> i \<le> 2147483647"

text \<open>
  \<^verbatim>\<open>add_item(i, v)\<close>: the item number is read and checked first, then the length of the
  vector; a loaded index takes no items, an index that is only built does.
\<close>

definition add_item :: "'f annoy \<Rightarrow> int \<Rightarrow> 'f list \<Rightarrow> error + 'f annoy" where
  "add_item a i v =
     (if \<not> in_c_int i then Inl OverflowError
      else if i < 0 then Inl IndexError
      else if length v \<noteq> idx_dim a then Inl IndexError
      else if idx_loaded a then Inl AnnoyError
      else Inr (a\<lparr>idx_items := AList.update i v (idx_items a)\<rparr>))"


subsection \<open>The environment: the library functions the program calls\<close>

text \<open>
  \<open>'f\<close> is the type of a vector component (a float in the program) and \<open>'j\<close> the type of
  the Python values that travel through \<^verbatim>\<open>json\<close>. Each field stands for one call of the
  source:
  \<^item> \<open>encode\<close>, \<open>encoder_dim\<close>: \<^verbatim>\<open>self.encoder.encode\<close> and
    \<^verbatim>\<open>get_sentence_embedding_dimension\<close>;
  \<^item> \<open>tolist\<close>: \<^verbatim>\<open>concept_vector.tolist()\<close>; \<open>np_array\<close>: \<^verbatim>\<open>np.array\<close> followed by Annoy
    reading the array as a vector (\<open>None\<close> when the value is no sequence of numbers);
  \<^item> \<open>json_dumps\<close> (\<open>None\<close>: the value is not serializable), \<open>json_loads\<close> (\<open>None\<close>: the
    text is not JSON);
  \<^item> \<open>get_nns_by_vector\<close>: the query of the index object, approximate and over floats, so
    left to the library;
  \<^item> \<open>auto_trees\<close>: the number of trees \<^verbatim>\<open>build\<close> grows over the given items when the count
    it is called with is negative (\<open>None\<close>: the build does not end);
  \<^item> \<open>load_foreign\<close>: what \<^verbatim>\<open>load\<close> makes of a file written for another vector length or
    metric (\<open>None\<close>: it raises; otherwise the items and the number of trees it reads);
  \<^item> \<open>writable\<close>: whether the file at a path can be written anew; \<open>unwritten\<close>: what a
    write that fails leaves at the path, given what was there (the old file, no file, or a
    part of the new one).
\<close>

record ('f, 'j) env =
  encode :: "string \<Rightarrow> 'f list"
  encoder_dim :: nat
  tolist :: "'f list \<Rightarrow> 'j"
  np_array :: "'j \<Rightarrow> 'f list option"
  json_dumps :: "'j \<Rightarrow> string option"
  json_loads :: "string \<Rightarrow> 'j option"
  get_nns_by_vector :: "'f annoy \<Rightarrow> 'f list \<Rightarrow> int \<Rightarrow> error + int list"
  auto_trees :: "(int \<times> 'f list) list \<Rightarrow> int \<Rightarrow> nat option"
  load_foreign :: "'f annoy \<Rightarrow> 'f annoy \<Rightarrow> ((int \<times> 'f list) list \<times> nat) option"
  writable :: "string \<Rightarrow> bool"
  unwritten :: "string \<Rightarrow> 'f annoy option \<Rightarrow> 'f annoy option"

text \<open>
  \<^verbatim>\<open>build(n_trees)\<close>. A count of 0 or more gives that many trees. With -1 the library grows
  trees until there are twice as many nodes as items, which on an index without items is at
  once; with any other negative count what it does depends on the machine.
\<close>

definition trees_made :: "('f, 'j) env \<Rightarrow> (int \<times> 'f list) list \<Rightarrow> int \<Rightarrow> nat option" where
  "trees_made env its n =
     (if 0 \<le> n then Some (nat n)
      else if n = - 1 \<and> its = [] then Some 0
      else auto_trees env its n)"

definition build :: "('f, 'j) env \<Rightarrow> 'f annoy \<Rightarrow> int \<Rightarrow> error + 'f annoy" where
  "build env a n =
     (if \<not> in_c_int n then Inl OverflowError
      else if idx_loaded a then Inl AnnoyError
      else if idx_built a then Inl AnnoyError
      else (case trees_made env (idx_items a) n of
              None \<Rightarrow> Inl NoReturn
            | Some t \<Rightarrow> Inr (a\<lparr>idx_trees := t, idx_built := True\<rparr>)))"

text \<open>
  The content of an index file is given as the index object that loading the file into an
  index of the same vector length and metric produces. A file without nodes is empty, and
  \<^verbatim>\<open>index.load(path)\<close> refuses it; on a file written for another vector length or metric the
  outcome is the environment's.
\<close>

definition empty_file :: "'f annoy \<Rightarrow> bool" where
  "empty_file file \<longleftrightarrow> idx_items file = [] \<and> idx_trees file = 0"

definition load :: "('f, 'j) env \<Rightarrow> 'f annoy \<Rightarrow> 'f annoy \<Rightarrow> error + 'f annoy" where
  "load env a file =
     (if empty_file file then Inl OSError
      else if idx_dim file = idx_dim a \<and> idx_metric file = idx_metric a
      then Inr (a\<lparr>idx_items := idx_items file, idx_trees := idx_trees file,
                  idx_built := True, idx_loaded := True\<rparr>)
      else (case load_foreign env a file of
              None \<Rightarrow> Inl OSError
            | Some (its, t) \<Rightarrow>
                Inr (a\<lparr>idx_items := its, idx_trees := t, idx_built := True, idx_loaded := True\<rparr>)))"

subsection \<open>The storage instance\<close>

text \<open>
  A row of the table \<^verbatim>\<open>concepts\<close>: \<^verbatim>\<open>(id, vector, metadata, raw_text)\<close>, the last three of
  SQL type \<^verbatim>\<open>TEXT\<close>.
\<close>

type_synonym row = "int \<times> string \<times> string \<times> string"

text \<open>
  The instance: the table in rowid order, the counter SQLite keeps for the
  \<^verbatim>\<open>AUTOINCREMENT\<close> column (the largest rowid it has issued), the fields of the Python
  object, and the content of the file at \<open>annoy_index_path\<close> (\<open>None\<close>: no such file).
\<close>

record 'f storage =
  concepts :: "row list"
  sqlite_sequence :: int
  embedding_dim :: nat
  annoy_index :: "'f annoy"
  annoy_index_path :: string
  n_trees :: int
  index_file :: "'f annoy option"

text \<open>What \<^verbatim>\<open>sqlite3.connect(db_path)\<close> finds: the table if it exists, the counter, the index file.\<close>

record 'f disk =
  disk_concepts :: "row list option"
  disk_sequence :: int
  disk_index :: "'f annoy option"

text \<open>The record dictionary handed to \<^verbatim>\<open>store\<close>, and the dictionary \<^verbatim>\<open>search\<close> returns per hit.\<close>

record 'j concept =
  vector :: 'j
  metadata :: 'j
  raw_text :: string

record 'j hit =
  hit_id :: int
  hit_vector :: 'j
  hit_metadata :: 'j
  hit_raw_text :: string

type_synonym ('a, 'f) outcome = "(error + 'a) \<times> 'f storage"

subsubsection \<open>\<^verbatim>\<open>_create_table\<close>\<close>

definition create_table :: "row list option \<Rightarrow> row list" where
  "create_table t = (case t of None \<Rightarrow> [] | Some rows \<Rightarrow> rows)"

subsubsection \<open>\<^verbatim>\<open>_build_annoy_index\<close>\<close>

text \<open>
  The loop over \<^verbatim>\<open>SELECT id, vector FROM concepts\<close>. \<^verbatim>\<open>add_item\<close> changes the index object
  in place, so a call that raises leaves the items added before it in the instance.
\<close>

fun add_rows :: "('f, 'j) env \<Rightarrow> 'f storage \<Rightarrow> row list \<Rightarrow> (unit, 'f) outcome" where
  "add_rows env s [] = (Inr (), s)"
| "add_rows env s ((record_id, vector_str, m, t) # rows) =
     (case json_loads env vector_str of
        None \<Rightarrow> (Inl JSONDecodeError, s)
      | Some j \<Rightarrow>
          (case np_array env j of
             None \<Rightarrow> (Inl TypeError, s)
           | Some v \<Rightarrow>
               (case add_item (annoy_index s) record_id v of
                  Inl e \<Rightarrow> (Inl e, s)
                | Inr a \<Rightarrow> add_rows env (s\<lparr>annoy_index := a\<rparr>) rows)))"

text \<open>
  \<^verbatim>\<open>index.save(path)\<close> refuses an index that is not built. It removes the file and writes
  the nodes of the index to a new one; where that fails, the index stays as it is and the
  file is what the failed write leaves. Then it unloads the index and loads it from the
  file just written, which fails when the file is empty and leaves the index unloaded.
\<close>

definition save :: "('f, 'j) env \<Rightarrow> 'f storage \<Rightarrow> (unit, 'f) outcome" where
  "save env s =
     (if \<not> idx_built (annoy_index s) then (Inl OSError, s)
      else if \<not> writable env (annoy_index_path s)
      then (Inl OSError, s\<lparr>index_file := unwritten env (annoy_index_path s) (index_file s)\<rparr>)
      else (let written = annoy_index s\<lparr>idx_loaded := True\<rparr>;
                s1 = s\<lparr>index_file := Some written\<rparr>
            in case load env (unload (annoy_index s)) written of
                 Inl e \<Rightarrow> (Inl e, s1\<lparr>annoy_index := unload (annoy_index s)\<rparr>)
               | Inr a \<Rightarrow> (Inr (), s1\<lparr>annoy_index := a\<rparr>)))"

text \<open>
  The old index object is unloaded and dropped, and a new one takes its place before the
  first row is read. The metric of the new object is the literal \<^verbatim>\<open>'angular'\<close>.
\<close>

definition build_annoy_index :: "('f, 'j) env \<Rightarrow> 'f storage \<Rightarrow> (unit, 'f) outcome" where
  "build_annoy_index env s =
     (let s0 = s\<lparr>annoy_index := unload (annoy_index s)\<rparr>;
          s1 = s0\<lparr>annoy_index := AnnoyIndex (embedding_dim s0) Angular\<rparr>
      in case add_rows env s1 (concepts s1) of
           (Inl e, s2) \<Rightarrow> (Inl e, s2)
         | (Inr u, s2) \<Rightarrow>
             (case build env (annoy_index s2) (n_trees s2) of
                Inl e \<Rightarrow> (Inl e, s2)
              | Inr a \<Rightarrow> save env (s2\<lparr>annoy_index := a\<rparr>)))"

subsubsection \<open>\<^verbatim>\<open>_load_annoy_index\<close>\<close>

text \<open>
  A missing file raises \<^verbatim>\<open>FileNotFoundError\<close>, a file that does not load raises
  \<^verbatim>\<open>OSError\<close>; the handler catches both and rebuilds.
\<close>

definition load_annoy_index :: "('f, 'j) env \<Rightarrow> 'f storage \<Rightarrow> (unit, 'f) outcome" where
  "load_annoy_index env s =
     (case index_file s of
        None \<Rightarrow> build_annoy_index env s
      | Some file \<Rightarrow>
          (case load env (annoy_index s) file of
             Inl e \<Rightarrow> build_annoy_index env s
           | Inr a \<Rightarrow> (Inr (), s\<lparr>annoy_index := a\<rparr>)))"

subsubsection \<open>\<^verbatim>\<open>SQLiteStorage.__init__\<close>\<close>

definition SQLiteStorage ::
  "('f, 'j) env \<Rightarrow> 'f disk \<Rightarrow> string \<Rightarrow> nat \<Rightarrow> metric \<Rightarrow> int \<Rightarrow> error + 'f storage" where
  "SQLiteStorage env d db_path dim annoy_metric trees =
     (let s = \<lparr>concepts = create_table (disk_concepts d),
                sqlite_sequence = disk_sequence d,
                embedding_dim = dim,
                annoy_index = AnnoyIndex dim annoy_metric,
                annoy_index_path = db_path @ ''.annoy'',
                n_trees = trees,
                index_file = disk_index d\<rparr>
      in case load_annoy_index env s of
           (Inl e, s') \<Rightarrow> Inl e
         | (Inr u, s') \<Rightarrow> Inr s')"

subsubsection \<open>\<^verbatim>\<open>update_annoy_index\<close>\<close>

definition update_annoy_index ::
  "('f, 'j) env \<Rightarrow> 'f storage \<Rightarrow> int \<Rightarrow> 'f list \<Rightarrow> (unit, 'f) outcome" where
  "update_annoy_index env s record_id v = build_annoy_index env s"

subsubsection \<open>\<^verbatim>\<open>store\<close>\<close>

text \<open>
  The rowid of an \<^verbatim>\<open>INTEGER PRIMARY KEY AUTOINCREMENT\<close> column: one more than the largest
  rowid in the table (1 for an empty table), and at least one more than the counter; no
  rowid is left once the largest one has been used, and the insert fails.
\<close>

definition MAX_ROWID :: int where
  "MAX_ROWID = 9223372036854775807"

fun max_rowid :: "row list \<Rightarrow> int option" where
  "max_rowid [] = None"
| "max_rowid (r # rows) =
     (case max_rowid rows of None \<Rightarrow> Some (fst r) | Some m \<Rightarrow> Some (max (fst r) m))"

definition new_rowid :: "row list \<Rightarrow> int \<Rightarrow> int option" where
  "new_rowid rows seq =
     (if seq \<ge> MAX_ROWID then None
      else (case max_rowid rows of
              None \<Rightarrow> Some (max 1 (seq + 1))
            | Some m \<Rightarrow> if m \<ge> MAX_ROWID then None else Some (max (m + 1) (seq + 1))))"

text \<open>
  The arguments of \<^verbatim>\<open>execute\<close> are evaluated first, so a value that \<^verbatim>\<open>json.dumps\<close> rejects
  raises before the table is touched. \<^verbatim>\<open>lastrowid\<close> is the rowid of the inserted row.
\<close>

definition store :: "('f, 'j) env \<Rightarrow> 'f storage \<Rightarrow> 'j concept \<Rightarrow> (int, 'f) outcome" where
  "store env s r =
     (case json_dumps env (vector r) of
        None \<Rightarrow> (Inl TypeError, s)
      | Some v \<Rightarrow>
          (case json_dumps env (metadata r) of
             None \<Rightarrow> (Inl TypeError, s)
           | Some m \<Rightarrow>
               (case new_rowid (concepts s) (sqlite_sequence s) of
                  None \<Rightarrow> (Inl OperationalError, s)
                | Some i \<Rightarrow>
                    (Inr i, s\<lparr>concepts := concepts s @ [(i, v, m, raw_text r)],
                              sqlite_sequence := i\<rparr>))))"

subsubsection \<open>\<^verbatim>\<open>search\<close>\<close>

text \<open>\<^verbatim>\<open>SELECT * FROM concepts WHERE id = ?\<close> and \<^verbatim>\<open>fetchone\<close>: the row with that id, if any.\<close>

definition fetch_row :: "'f storage \<Rightarrow> int \<Rightarrow> row option" where
  "fetch_row s record_id = find (\<lambda>r. fst r = record_id) (concepts s)"

text \<open>The dictionary built from a row.\<close>

definition hydrate :: "('f, 'j) env \<Rightarrow> row \<Rightarrow> error + 'j hit" where
  "hydrate env r =
     (case r of (i, v, m, t) \<Rightarrow>
        (case json_loads env v of
           None \<Rightarrow> Inl JSONDecodeError
         | Some jv \<Rightarrow>
             (case json_loads env m of
                None \<Rightarrow> Inl JSONDecodeError
              | Some jm \<Rightarrow>
                  Inr \<lparr>hit_id = i, hit_vector = jv, hit_metadata = jm, hit_raw_text = t\<rparr>)))"

text \<open>The loop over \<^verbatim>\<open>neighbor_ids\<close>, with \<^verbatim>\<open>results\<close> as accumulator.\<close>

fun search_loop ::
  "('f, 'j) env \<Rightarrow> 'f storage \<Rightarrow> int list \<Rightarrow> 'j hit list \<Rightarrow> error + 'j hit list" where
  "search_loop env s [] results = Inr results"
| "search_loop env s (record_id # ids) results =
     (case fetch_row s record_id of
        None \<Rightarrow> search_loop env s ids results
      | Some r \<Rightarrow>
          (case hydrate env r of
             Inl e \<Rightarrow> Inl e
           | Inr h \<Rightarrow> search_loop env s ids (results @ [h])))"

definition search ::
  "('f, 'j) env \<Rightarrow> 'f storage \<Rightarrow> 'f list \<Rightarrow> int \<Rightarrow> error + 'j hit list" where
  "search env s query_vector top_k =
     (case get_nns_by_vector env (annoy_index s) query_vector top_k of
        Inl e \<Rightarrow> Inl e
      | Inr neighbor_ids \<Rightarrow> search_loop env s neighbor_ids [])"

subsection \<open>The facade\<close>

record 'f concept_library =
  lib_embedding_dim :: nat
  storage :: "'f storage"

text \<open>
  \<^verbatim>\<open>ConceptLibrary.__init__\<close>: a storage is constructed, with the encoder's vector length and
  every other argument at its default, only when the caller passes none.
\<close>

definition ConceptLibrary ::
  "('f, 'j) env \<Rightarrow> 'f disk \<Rightarrow> 'f storage option \<Rightarrow> error + 'f concept_library" where
  "ConceptLibrary env d storage_backend =
     (case storage_backend of
        None \<Rightarrow>
          (case SQLiteStorage env d ''concepts.db'' (encoder_dim env) Angular 10 of
             Inl e \<Rightarrow> Inl e
           | Inr s \<Rightarrow> Inr \<lparr>lib_embedding_dim = encoder_dim env, storage = s\<rparr>)
      | Some s \<Rightarrow> Inr \<lparr>lib_embedding_dim = encoder_dim env, storage = s\<rparr>)"

definition add_interaction ::
  "('f, 'j) env \<Rightarrow> 'f concept_library \<Rightarrow> string \<Rightarrow> 'j \<Rightarrow> (error + int) \<times> 'f concept_library" where
  "add_interaction env lib user_input md =
     (let concept_vector = encode env user_input;
          r = \<lparr>vector = tolist env concept_vector, metadata = md, raw_text = user_input\<rparr>
      in case store env (storage lib) r of
           (Inl e, s) \<Rightarrow> (Inl e, lib\<lparr>storage := s\<rparr>)
         | (Inr record_id, s) \<Rightarrow>
             (case update_annoy_index env s record_id concept_vector of
                (Inl e, s') \<Rightarrow> (Inl e, lib\<lparr>storage := s'\<rparr>)
              | (Inr u, s') \<Rightarrow> (Inr record_id, lib\<lparr>storage := s'\<rparr>)))"

definition library_search ::
  "('f, 'j) env \<Rightarrow> 'f concept_library \<Rightarrow> string \<Rightarrow> int \<Rightarrow> error + 'j hit list" where
  "library_search env lib query top_k = search env (storage lib) (encode env query) top_k"

subsection \<open>Notions the properties are stated with\<close>

text \<open>
  A point lookup, as one round of the loop of \<^verbatim>\<open>search\<close> performs it: the row is selected
  by id and, when there is one, turned into a dictionary.
\<close>

definition fetch :: "('f, 'j) env \<Rightarrow> 'f storage \<Rightarrow> int \<Rightarrow> error + 'j hit option" where
  "fetch env s record_id =
     (case fetch_row s record_id of
        None \<Rightarrow> Inr None
      | Some r \<Rightarrow> (case hydrate env r of Inl e \<Rightarrow> Inl e | Inr h \<Rightarrow> Inr (Some h)))"

text \<open>The dictionaries of a list of rows, in order; the first row that does not decode raises.\<close>

fun hydrate_rows :: "('f, 'j) env \<Rightarrow> row list \<Rightarrow> error + 'j hit list" where
  "hydrate_rows env [] = Inr []"
| "hydrate_rows env (r # rows) =
     (case hydrate env r of
        Inl e \<Rightarrow> Inl e
      | Inr h \<Rightarrow> (case hydrate_rows env rows of Inl e \<Rightarrow> Inl e | Inr hs \<Rightarrow> Inr (h # hs)))"

text \<open>
  The items of the table as the specification's \<^verbatim>\<open>iterate_all\<close> names them: the pairs of id
  and vector that the rows decode to (\<open>None\<close> when some row does not decode).
\<close>

fun iterate_all :: "('f, 'j) env \<Rightarrow> row list \<Rightarrow> (int \<times> 'f list) list option" where
  "iterate_all env [] = Some []"
| "iterate_all env ((record_id, vector_str, m, t) # rows) =
     (case json_loads env vector_str of
        None \<Rightarrow> None
      | Some j \<Rightarrow>
          (case np_array env j of
             None \<Rightarrow> None
           | Some v \<Rightarrow>
               (case iterate_all env rows of
                  None \<Rightarrow> None
                | Some its \<Rightarrow> Some ((record_id, v) # its))))"

text \<open>
  A value survives the trip through \<^verbatim>\<open>json\<close> when \<^verbatim>\<open>json.loads(json.dumps(x)) == x\<close>; the
  library promises this of JSON-compatible values (dictionaries with string keys, lists,
  strings, numbers, booleans and \<^verbatim>\<open>None\<close>).
\<close>

definition json_roundtrip :: "('f, 'j) env \<Rightarrow> 'j \<Rightarrow> bool" where
  "json_roundtrip env x =
     (case json_dumps env x of None \<Rightarrow> False | Some t \<Rightarrow> json_loads env t = Some x)"

text \<open>
  The index that startup gets from the index file, for an instance of the given vector
  length and metric: \<open>None\<close> when the file is missing or does not load.
\<close>

definition usable_index :: "('f, 'j) env \<Rightarrow> 'f disk \<Rightarrow> nat \<Rightarrow> metric \<Rightarrow> 'f annoy option" where
  "usable_index env d dim m =
     (case disk_index d of
        None \<Rightarrow> None
      | Some file \<Rightarrow> (case load env (AnnoyIndex dim m) file of Inl e \<Rightarrow> None | Inr a \<Rightarrow> Some a))"

text \<open>The largest rowid the table holds or has issued: no later insert goes at or below it.\<close>

definition high_water :: "'f storage \<Rightarrow> int" where
  "high_water s =
     (case max_rowid (concepts s) of
        None \<Rightarrow> sqlite_sequence s
      | Some m \<Rightarrow> max m (sqlite_sequence s))"

text \<open>
  A client's calls on one instance, and the ids that the successful \<^verbatim>\<open>store\<close> calls among
  them return, in order. A call that raises leaves the instance as the exception found it.
\<close>

datatype ('f, 'j) call =
  Store "'j concept"
  | UpdateIndex int "'f list"
  | Search "'f list" int

fun issued_ids :: "('f, 'j) env \<Rightarrow> 'f storage \<Rightarrow> ('f, 'j) call list \<Rightarrow> int list" where
  "issued_ids env s [] = []"
| "issued_ids env s (Store r # calls) =
     (case store env s r of
        (Inl e, s') \<Rightarrow> issued_ids env s' calls
      | (Inr i, s') \<Rightarrow> i # issued_ids env s' calls)"
| "issued_ids env s (UpdateIndex i v # calls) =
     issued_ids env (snd (update_annoy_index env s i v)) calls"
| "issued_ids env s (Search q k # calls) = issued_ids env s calls"

subsection \<open>A small instance to run the program on\<close>

text \<open>
  Vector components are integers, the encoder maps a text to one of two vectors of length
  2, and \<^verbatim>\<open>json\<close> is the table of the few values the examples use; any other value counts as
  not serializable, any other text as not JSON. The query of the example index returns the
  first \<open>k\<close> item numbers of a built index and rejects a vector of the wrong length. A
  negative tree count gives one tree, every path can be written, and a write that fails
  would leave the old file.
\<close>

datatype pyval = PyList "int list" | PyDict "(string \<times> string) list" | PyObject

definition example_dumps :: "pyval \<Rightarrow> string option" where
  \<open>example_dumps j =
     (if j = PyList [1, 0] then Some ''[1, 0]''
      else if j = PyList [0, 1] then Some ''[0, 1]''
      else if j = PyList [1] then Some ''[1]''
      else if j = PyList [1, 0, 0] then Some ''[1, 0, 0]''
      else if j = PyDict [(''type'', ''fruit'')] then Some ''{"type": "fruit"}''
      else None)\<close>

definition example_loads :: "string \<Rightarrow> pyval option" where
  \<open>example_loads t =
     (if t = ''[1, 0]'' then Some (PyList [1, 0])
      else if t = ''[0, 1]'' then Some (PyList [0, 1])
      else if t = ''[1]'' then Some (PyList [1])
      else if t = ''[1, 0, 0]'' then Some (PyList [1, 0, 0])
      else if t = ''{"type": "fruit"}'' then Some (PyDict [(''type'', ''fruit'')])
      else None)\<close>

definition example_env :: "(int, pyval) env" where
  "example_env =
     \<lparr>encode = (\<lambda>t. if t = ''apple'' then [1, 0] else [0, 1]),
      encoder_dim = 2,
      tolist = PyList,
      np_array = (\<lambda>j. case j of PyList v \<Rightarrow> Some v | _ \<Rightarrow> None),
      json_dumps = example_dumps,
      json_loads = example_loads,
      get_nns_by_vector =
        (\<lambda>a q k. if length q \<noteq> idx_dim a then Inl IndexError
                  else if \<not> idx_built a then Inr []
                  else Inr (take (nat k) (map fst (idx_items a)))),
      auto_trees = (\<lambda>its n. Some 1),
      load_foreign = (\<lambda>a file. None),
      writable = (\<lambda>p. True),
      unwritten = (\<lambda>p old. old)\<rparr>"

definition fruit :: pyval where
  "fruit = PyDict [(''type'', ''fruit'')]"

definition fruit_text :: string where
  \<open>fruit_text = ''{"type": "fruit"}''\<close>

definition empty_disk :: "int disk" where
  "empty_disk = \<lparr>disk_concepts = None, disk_sequence = 0, disk_index = None\<rparr>"

definition built_index :: "nat \<Rightarrow> (int \<times> int list) list \<Rightarrow> int annoy" where
  "built_index f its =
     \<lparr>idx_dim = f, idx_metric = Angular, idx_items = its, idx_trees = 10,
      idx_built = True, idx_loaded = True\<rparr>"

text \<open>The instance \<^verbatim>\<open>SQLiteStorage(embedding_dim=2)\<close> constructs where there is no database yet.\<close>

definition fresh_storage :: "int storage" where
  "fresh_storage =
     \<lparr>concepts = [], sqlite_sequence = 0, embedding_dim = 2,
      annoy_index = built_index 2 [],
      annoy_index_path = ''concepts.db.annoy'', n_trees = 10,
      index_file = Some (built_index 2 [])\<rparr>"

text \<open>The same instance after \<^verbatim>\<open>add_interaction("apple", {"type": "fruit"})\<close>.\<close>

definition apple_storage :: "int storage" where
  "apple_storage =
     fresh_storage\<lparr>concepts := [(1, ''[1, 0]'', fruit_text, ''apple'')],
                   sqlite_sequence := 1,
                   annoy_index := built_index 2 [(1, [1, 0])],
                   index_file := Some (built_index 2 [(1, [1, 0])])\<rparr>"








text \<open>An index that knows an item 2 for which the table has no row.\<close>

definition dangling_storage :: "int storage" where
  "dangling_storage =
     apple_storage\<lparr>annoy_index := built_index 2 [(2, [0, 1]), (1, [1, 0])]\<rparr>"

text \<open>
  An instance of vector length 3 holding one record, as a caller may hand it to the facade,
  and the database it leaves on disk; the same database with no row in the table.
\<close>

definition wide_storage :: "int storage" where
  "wide_storage =
     \<lparr>concepts = [(1, ''[1, 0, 0]'', fruit_text, ''cherry'')], sqlite_sequence = 1,
      embedding_dim = 3,
      annoy_index = built_index 3 [(1, [1, 0, 0])],
      annoy_index_path = ''concepts.db.annoy'', n_trees = 10,
      index_file = Some (built_index 3 [(1, [1, 0, 0])])\<rparr>"

definition wide_disk :: "int disk" where
  "wide_disk =
     \<lparr>disk_concepts = Some [(1, ''[1, 0, 0]'', fruit_text, ''cherry'')], disk_sequence = 1,
      disk_index = Some (built_index 3 [(1, [1, 0, 0])])\<rparr>"

definition wide_empty_disk :: "int disk" where
  "wide_empty_disk =
     \<lparr>disk_concepts = Some [], disk_sequence = 0, disk_index = Some (built_index 3 [])\<rparr>"

text \<open>
  A database whose index file was saved by an instance of euclidean metric, and the
  instance that \<^verbatim>\<open>SQLiteStorage(embedding_dim=2, annoy_metric='euclidean')\<close> constructs on it.
\<close>

definition euclidean_disk :: "int disk" where
  "euclidean_disk =
     \<lparr>disk_concepts = Some [], disk_sequence = 0,
      disk_index = Some \<lparr>idx_dim = 2, idx_metric = Euclidean, idx_items = [], idx_trees = 10,
                         idx_built = True, idx_loaded = True\<rparr>\<rparr>"

definition euclidean_storage :: "int storage" where
  "euclidean_storage =
     \<lparr>concepts = [], sqlite_sequence = 0, embedding_dim = 2,
      annoy_index = \<lparr>idx_dim = 2, idx_metric = Euclidean, idx_items = [], idx_trees = 10,
                         idx_built = True, idx_loaded = True\<rparr>,
      annoy_index_path = ''concepts.db.annoy'', n_trees = 10,
      index_file = Some \<lparr>idx_dim = 2, idx_metric = Euclidean, idx_items = [], idx_trees = 10,
                         idx_built = True, idx_loaded = True\<rparr>\<rparr>"

text \<open>The facade over an instance, with the example encoder's vector length.\<close>

definition library_of :: "int storage \<Rightarrow> int concept_library" where
  "library_of s = \<lparr>lib_embedding_dim = 2, storage = s\<rparr>"

subsection \<open>Facts about the record store\<close>

lemma store_Inl: "store env s r = (Inl e, s') \<Longrightarrow> s' = s"
  by (auto simp: store_def split: option.splits)

lemma store_Inr:
  assumes "store env s r = (Inr i, s')"
  obtains v m where "json_dumps env (vector r) = Some v" "json_dumps env (metadata r) = Some m"
    "new_rowid (concepts s) (sqlite_sequence s) = Some i"
    "s' = s\<lparr>concepts := concepts s @ [(i, v, m, raw_text r)], sqlite_sequence := i\<rparr>"
  using assms by (auto simp: store_def split: option.splits)

lemma max_rowid_None: "max_rowid rows = None \<longleftrightarrow> rows = []"
  by (cases rows) (auto split: option.splits)

lemma max_rowid_bound: "max_rowid rows = Some m \<Longrightarrow> r \<in> set rows \<Longrightarrow> fst r \<le> m"
  by (induction rows arbitrary: m) (auto split: option.splits simp: max_rowid_None)

lemma new_rowid_above:
  assumes "new_rowid rows seq = Some i"
  shows "seq < i" and "r \<in> set rows \<Longrightarrow> fst r < i"
proof -
  show "seq < i" using assms
    by (auto simp: new_rowid_def split: if_splits option.splits)
  assume "r \<in> set rows"
  then obtain m where m: "max_rowid rows = Some m"
    by (cases "max_rowid rows") (auto simp: max_rowid_None)
  with \<open>r \<in> set rows\<close> have "fst r \<le> m" by (rule max_rowid_bound[rotated -1]) 
  with assms m show "fst r < i"
    by (auto simp: new_rowid_def split: if_splits)
qed

lemma find_append_fresh:
  "find P xs = Some x \<Longrightarrow> find P (xs @ ys) = Some x"
  by (induction xs) auto

lemma find_append_new:
  "\<forall>x \<in> set xs. \<not> P x \<Longrightarrow> find P (xs @ ys) = find P ys"
  by (induction xs) auto

subsection \<open>Stored rows are never touched again\<close>

text \<open>
  Claim C10. Whatever a call of \<^verbatim>\<open>store\<close> does, a record that was in the table before the
  call is there afterwards as it was: the lookup of its id finds the same row and gives the
  same id, vector, metadata and raw text, and the table after the call begins with the
  table before it.
\<close>
theorem store_keeps_rows:
  assumes "store env s r = (out, s')" and "fetch_row s i = Some old"
  shows "fetch_row s' i = Some old \<and> fetch env s' i = fetch env s i \<and>
         take (length (concepts s)) (concepts s') = concepts s"
proof (cases out)
  case (Inl e)
  with assms(1) have "s' = s" by (simp add: store_Inl)
  with assms(2) show ?thesis by simp
next
  case (Inr n)
  with assms(1) obtain v m where
    "s' = s\<lparr>concepts := concepts s @ [(n, v, m, raw_text r)], sqlite_sequence := n\<rparr>"
    by (auto elim: store_Inr)
  with assms(2) show ?thesis
    by (simp add: fetch_row_def fetch_def find_append_fresh)
qed

theorem store_keeps_rows_witness:
  "fetch_row apple_storage 1 = Some (1, ''[1, 0]'', fruit_text, ''apple'') \<and>
   fetch example_env
     (snd (store example_env apple_storage \<lparr>vector = PyList [0, 1], metadata = fruit, raw_text = ''banana''\<rparr>)) 1
     = Inr (Some \<lparr>hit_id = 1, hit_vector = PyList [1, 0], hit_metadata = fruit, hit_raw_text = ''apple''\<rparr>)"
proof -
  have row: "fetch_row apple_storage 1 = Some (1, ''[1, 0]'', fruit_text, ''apple'')"
    by code_simp
  have before: "fetch example_env apple_storage 1 =
      Inr (Some \<lparr>hit_id = 1, hit_vector = PyList [1, 0], hit_metadata = fruit, hit_raw_text = ''apple''\<rparr>)"
    by code_simp
  from store_keeps_rows[OF surjective_pairing row, of example_env] before row
  show ?thesis by simp
qed

subsection \<open>A failed store ends the write\<close>

text \<open>
  Claim C9. When the \<^verbatim>\<open>store\<close> step of \<^verbatim>\<open>add_interaction\<close> raises, the call raises the same
  exception instead of returning an id, and the library is left exactly as it was: no row
  has been written and the index object and the index file are untouched, so no rebuild has
  run.
\<close>
theorem failed_store_stops_add_interaction:
  assumes "store env (storage lib)
             \<lparr>vector = tolist env (encode env text), metadata = md, raw_text = text\<rparr> = (Inl e, s')"
  shows "add_interaction env lib text md = (Inl e, lib)"
proof -
  from assms have "s' = storage lib" by (rule store_Inl)
  with assms show ?thesis by (simp add: add_interaction_def)
qed

theorem failed_store_stops_add_interaction_witness:
  "store example_env apple_storage
     \<lparr>vector = tolist example_env (encode example_env ''pear''), metadata = PyObject, raw_text = ''pear''\<rparr>
     = (Inl TypeError, apple_storage) \<and>
   add_interaction example_env \<lparr>lib_embedding_dim = 2, storage = apple_storage\<rparr> ''pear'' PyObject
     = (Inl TypeError, \<lparr>lib_embedding_dim = 2, storage = apple_storage\<rparr>)"
proof -
  have h: "store example_env (storage \<lparr>lib_embedding_dim = 2, storage = apple_storage\<rparr>)
     \<lparr>vector = tolist example_env (encode example_env ''pear''), metadata = PyObject, raw_text = ''pear''\<rparr>
     = (Inl TypeError, apple_storage)"
    by code_simp
  from failed_store_stops_add_interaction[OF h] h show ?thesis by simp
qed

subsection \<open>Facts about the rebuild\<close>

lemma add_item_Inr:
  "add_item a i v = Inr a' \<Longrightarrow>
     a' = a\<lparr>idx_items := AList.update i v (idx_items a)\<rparr> \<and>
     in_c_int i \<and> 0 \<le> i \<and> length v = idx_dim a \<and> \<not> idx_loaded a"
  by (auto simp: add_item_def split: if_splits)


lemma add_rows_Cons_cases:
  assumes "add_rows env s ((i, v, m, t) # rows) = (out, s')"
  obtains (undecodable) "json_loads env v = None" "out = Inl JSONDecodeError" "s' = s"
  | (no_vector) j where "json_loads env v = Some j" "np_array env j = None"
      "out = Inl TypeError" "s' = s"
  | (rejected) j w e where "json_loads env v = Some j" "np_array env j = Some w"
      "add_item (annoy_index s) i w = Inl e" "out = Inl e" "s' = s"
  | (added) j w a where "json_loads env v = Some j" "np_array env j = Some w"
      "add_item (annoy_index s) i w = Inr a"
      "add_rows env (s\<lparr>annoy_index := a\<rparr>) rows = (out, s')"
proof (cases "json_loads env v")
  case None
  with assms have "out = Inl JSONDecodeError" "s' = s" by simp_all
  with None show ?thesis by (rule undecodable)
next
  case (Some j)
  note j = this
  show ?thesis
  proof (cases "np_array env j")
    case None
    with assms j have "out = Inl TypeError" "s' = s" by simp_all
    with j None show ?thesis by (rule no_vector)
  next
    case (Some w)
    note w = this
    show ?thesis
    proof (cases "add_item (annoy_index s) i w")
      case (Inl e)
      with assms j w have "out = Inl e" "s' = s" by simp_all
      with j w Inl show ?thesis by (rule rejected)
    next
      case (Inr a)
      with assms j w have "add_rows env (s\<lparr>annoy_index := a\<rparr>) rows = (out, s')" by simp
      with j w Inr show ?thesis by (rule added)
    qed
  qed
qed

text \<open>The loop touches nothing but the index object, and of that only the items.\<close>

lemma add_rows_frame:
  "add_rows env s rows = (out, s') \<Longrightarrow>
     \<exists>its. s' = s\<lparr>annoy_index := annoy_index s\<lparr>idx_items := its\<rparr>\<rparr>"
proof (induction rows arbitrary: s)
  case Nil
  then have "s' = s\<lparr>annoy_index := annoy_index s\<lparr>idx_items := idx_items (annoy_index s)\<rparr>\<rparr>"
    by simp
  then show ?case ..
next
  case (Cons r rows)
  obtain i v m t where r: "r = (i, v, m, t)" by (cases r)
  have same: "s = s\<lparr>annoy_index := annoy_index s\<lparr>idx_items := idx_items (annoy_index s)\<rparr>\<rparr>"
    by simp
  from Cons.prems[unfolded r] show ?case
  proof (cases rule: add_rows_Cons_cases)
    case (added j w a)
    from Cons.IH[OF added(4)] add_item_Inr[OF added(3)] show ?thesis by auto
  qed (use same in blast)+
qed





lemma iterate_all_ids: "iterate_all env rows = Some its \<Longrightarrow> map fst its = map fst rows"
proof (induction rows arbitrary: its)
  case Nil
  then show ?case by simp
next
  case (Cons r rows)
  obtain i v m t where r: "r = (i, v, m, t)" by (cases r)
  from Cons.prems r show ?case
    by (auto split: option.splits dest: Cons.IH)
qed



subsubsection \<open>Building and saving\<close>

lemma build_Inr:
  "build env a n = Inr a' \<Longrightarrow>
     \<exists>t. trees_made env (idx_items a) n = Some t \<and> a' = a\<lparr>idx_trees := t, idx_built := True\<rparr>"
  by (auto simp: build_def split: if_splits option.splits)


lemma reload_written:
  assumes "idx_built a" and "\<not> empty_file a"
  shows "load env (unload a) (a\<lparr>idx_loaded := True\<rparr>) = Inr (a\<lparr>idx_loaded := True\<rparr>)"
proof -
  obtain f m its t b l where
    a: "a = \<lparr>idx_dim = f, idx_metric = m, idx_items = its, idx_trees = t,
             idx_built = b, idx_loaded = l\<rparr>"
    by (cases a) simp
  with assms show ?thesis
    by (simp add: load_def unload_def empty_file_def)
qed

lemma reload_empty:
  assumes "empty_file a"
  shows "load env (unload a) (a\<lparr>idx_loaded := True\<rparr>) = Inl OSError"
  using assms by (simp add: load_def empty_file_def)

lemma save_built:
  assumes "idx_built (annoy_index s)" and "writable env (annoy_index_path s)"
  shows "save env s =
           (if empty_file (annoy_index s)
            then (Inl OSError, s\<lparr>index_file := Some (annoy_index s\<lparr>idx_loaded := True\<rparr>),
                                 annoy_index := unload (annoy_index s)\<rparr>)
            else (Inr (), s\<lparr>index_file := Some (annoy_index s\<lparr>idx_loaded := True\<rparr>),
                            annoy_index := annoy_index s\<lparr>idx_loaded := True\<rparr>\<rparr>))"
proof (cases "empty_file (annoy_index s)")
  case True
  with assms reload_empty[OF True, of env] show ?thesis
    by (simp add: save_def Let_def)
next
  case False
  with assms reload_written[OF assms(1) False, of env] show ?thesis
    by (simp add: save_def Let_def)
qed

lemma save_unwritable:
  assumes "idx_built (annoy_index s)" and "\<not> writable env (annoy_index_path s)"
  shows "save env s =
           (Inl OSError, s\<lparr>index_file := unwritten env (annoy_index_path s) (index_file s)\<rparr>)"
  using assms by (simp add: save_def)

text \<open>The five ways a rebuild can end.\<close>

lemma build_annoy_index_cases:
  assumes "build_annoy_index env s = (out, s')"
  obtains (row_failed) e where
      "add_rows env (s\<lparr>annoy_index := AnnoyIndex (embedding_dim s) Angular\<rparr>) (concepts s) = (Inl e, s')"
      "out = Inl e"
  | (build_failed) e where
      "add_rows env (s\<lparr>annoy_index := AnnoyIndex (embedding_dim s) Angular\<rparr>) (concepts s) = (Inr (), s')"
      "build env (annoy_index s') (n_trees s) = Inl e" "out = Inl e"
  | (unwritable) s2 a where
      "add_rows env (s\<lparr>annoy_index := AnnoyIndex (embedding_dim s) Angular\<rparr>) (concepts s) = (Inr (), s2)"
      "build env (annoy_index s2) (n_trees s) = Inr a"
      "\<not> writable env (annoy_index_path s)" "out = Inl OSError"
      "s' = s2\<lparr>index_file := unwritten env (annoy_index_path s) (index_file s),
               annoy_index := a\<rparr>"
  | (empty_written) s2 a where
      "add_rows env (s\<lparr>annoy_index := AnnoyIndex (embedding_dim s) Angular\<rparr>) (concepts s) = (Inr (), s2)"
      "build env (annoy_index s2) (n_trees s) = Inr a"
      "writable env (annoy_index_path s)" "empty_file a" "out = Inl OSError"
      "s' = s2\<lparr>index_file := Some (a\<lparr>idx_loaded := True\<rparr>), annoy_index := unload a\<rparr>"
  | (rebuilt) s2 a where
      "add_rows env (s\<lparr>annoy_index := AnnoyIndex (embedding_dim s) Angular\<rparr>) (concepts s) = (Inr (), s2)"
      "build env (annoy_index s2) (n_trees s) = Inr a"
      "writable env (annoy_index_path s)" "\<not> empty_file a" "out = Inr ()"
      "s' = s2\<lparr>index_file := Some (a\<lparr>idx_loaded := True\<rparr>),
               annoy_index := a\<lparr>idx_loaded := True\<rparr>\<rparr>"
proof -
  let ?s1 = "s\<lparr>annoy_index := AnnoyIndex (embedding_dim s) Angular\<rparr>"
  obtain o2 s2 where loop: "add_rows env ?s1 (concepts s) = (o2, s2)"
    by (cases "add_rows env ?s1 (concepts s)")
  from add_rows_frame[OF loop] obtain its where
    s2: "s2 = ?s1\<lparr>annoy_index := annoy_index ?s1\<lparr>idx_items := its\<rparr>\<rparr>" ..
  have path: "annoy_index_path s2 = annoy_index_path s" and trees: "n_trees s2 = n_trees s"
    and saved: "index_file s2 = index_file s"
    by (simp_all add: s2)
  show ?thesis
  proof (cases o2)
    case (Inl e)
    with assms loop have "out = Inl e" "s' = s2"
      by (simp_all add: build_annoy_index_def unload_def)
    with loop Inl row_failed show ?thesis by simp
  next
    case (Inr u)
    show ?thesis
    proof (cases "build env (annoy_index s2) (n_trees s)")
      case (Inl e)
      with assms loop Inr trees have "out = Inl e" "s' = s2"
        by (simp_all add: build_annoy_index_def unload_def)
      with loop Inr Inl build_failed show ?thesis by simp
    next
      case (Inr a)
      note a = this
      from build_Inr[OF a] have built: "idx_built a" by auto
      from assms loop \<open>o2 = Inr u\<close> a trees
      have run: "save env (s2\<lparr>annoy_index := a\<rparr>) = (out, s')"
        by (simp add: build_annoy_index_def unload_def)
      show ?thesis
      proof (cases "writable env (annoy_index_path s)")
        case False
        with run path saved built
        have "out = Inl OSError"
          "s' = s2\<lparr>index_file := unwritten env (annoy_index_path s) (index_file s),
                   annoy_index := a\<rparr>"
          by (auto simp: save_unwritable)
        with loop \<open>o2 = Inr u\<close> a False unwritable show ?thesis by simp
      next
        case True
        from built True path
        have sv: "save env (s2\<lparr>annoy_index := a\<rparr>) =
           (if empty_file a
            then (Inl OSError, s2\<lparr>index_file := Some (a\<lparr>idx_loaded := True\<rparr>),
                                  annoy_index := unload a\<rparr>)
            else (Inr (), s2\<lparr>index_file := Some (a\<lparr>idx_loaded := True\<rparr>),
                             annoy_index := a\<lparr>idx_loaded := True\<rparr>\<rparr>))"
          using save_built[of "s2\<lparr>annoy_index := a\<rparr>" env] by simp
        show ?thesis
        proof (cases "empty_file a")
          case e: True
          with run sv have "out = Inl OSError"
            "s' = s2\<lparr>index_file := Some (a\<lparr>idx_loaded := True\<rparr>), annoy_index := unload a\<rparr>"
            by simp_all
          with loop \<open>o2 = Inr u\<close> a True e empty_written show ?thesis by simp
        next
          case e: False
          with run sv have "out = Inr ()"
            "s' = s2\<lparr>index_file := Some (a\<lparr>idx_loaded := True\<rparr>),
                     annoy_index := a\<lparr>idx_loaded := True\<rparr>\<rparr>"
            by simp_all
          with loop \<open>o2 = Inr u\<close> a True e rebuilt show ?thesis by simp
        qed
      qed
    qed
  qed
qed

text \<open>
  What the loop leaves when it has gone through all rows, and what a build makes of it.
\<close>

lemma add_rows_fresh:
  assumes "add_rows env (s\<lparr>annoy_index := AnnoyIndex (embedding_dim s) Angular\<rparr>) rows = (out, s2)"
  obtains its where
    "s2 = s\<lparr>annoy_index :=
              \<lparr>idx_dim = embedding_dim s, idx_metric = Angular, idx_items = its,
               idx_trees = 0, idx_built = False, idx_loaded = False\<rparr>\<rparr>"
proof -
  from add_rows_frame[OF assms] obtain its where
    "s2 = s\<lparr>annoy_index :=
              \<lparr>idx_dim = embedding_dim s, idx_metric = Angular, idx_items = its,
               idx_trees = 0, idx_built = False, idx_loaded = False\<rparr>\<rparr>"
    by (auto simp: AnnoyIndex_def)
  then show ?thesis by (rule that)
qed

text \<open>A rebuild leaves the table, the counter and the configuration of the instance alone.\<close>

lemma build_annoy_index_frame:
  assumes "build_annoy_index env s = (out, s')"
  shows "\<exists>its t b l saved.
           s' = s\<lparr>annoy_index :=
                     \<lparr>idx_dim = embedding_dim s, idx_metric = Angular, idx_items = its,
                      idx_trees = t, idx_built = b, idx_loaded = l\<rparr>,
                   index_file := saved\<rparr>"
  using assms
proof (cases rule: build_annoy_index_cases)
  case (row_failed e)
  from row_failed(1) obtain its where
    "s' = s\<lparr>annoy_index :=
              \<lparr>idx_dim = embedding_dim s, idx_metric = Angular, idx_items = its,
               idx_trees = 0, idx_built = False, idx_loaded = False\<rparr>\<rparr>"
    by (rule add_rows_fresh)
  then have "s' = s\<lparr>annoy_index :=
              \<lparr>idx_dim = embedding_dim s, idx_metric = Angular, idx_items = its,
               idx_trees = 0, idx_built = False, idx_loaded = False\<rparr>,
              index_file := index_file s\<rparr>"
    by simp
  then show ?thesis by blast
next
  case (build_failed e)
  from build_failed(1) obtain its where
    "s' = s\<lparr>annoy_index :=
              \<lparr>idx_dim = embedding_dim s, idx_metric = Angular, idx_items = its,
               idx_trees = 0, idx_built = False, idx_loaded = False\<rparr>\<rparr>"
    by (rule add_rows_fresh)
  then have "s' = s\<lparr>annoy_index :=
              \<lparr>idx_dim = embedding_dim s, idx_metric = Angular, idx_items = its,
               idx_trees = 0, idx_built = False, idx_loaded = False\<rparr>,
              index_file := index_file s\<rparr>"
    by simp
  then show ?thesis by blast
next
  case (unwritable s2 a)
  from unwritable(1) obtain its where
    s2: "s2 = s\<lparr>annoy_index :=
              \<lparr>idx_dim = embedding_dim s, idx_metric = Angular, idx_items = its,
               idx_trees = 0, idx_built = False, idx_loaded = False\<rparr>\<rparr>"
    by (rule add_rows_fresh)
  from build_Inr[OF unwritable(2)] obtain t where
    "a = annoy_index s2\<lparr>idx_trees := t, idx_built := True\<rparr>" by auto
  with s2 unwritable(5)
  have "s' = s\<lparr>annoy_index :=
              \<lparr>idx_dim = embedding_dim s, idx_metric = Angular, idx_items = its,
               idx_trees = t, idx_built = True, idx_loaded = False\<rparr>,
              index_file := unwritten env (annoy_index_path s) (index_file s)\<rparr>"
    by simp
  then show ?thesis by blast
next
  case (empty_written s2 a)
  from empty_written(1) obtain its where
    s2: "s2 = s\<lparr>annoy_index :=
              \<lparr>idx_dim = embedding_dim s, idx_metric = Angular, idx_items = its,
               idx_trees = 0, idx_built = False, idx_loaded = False\<rparr>\<rparr>"
    by (rule add_rows_fresh)
  from build_Inr[OF empty_written(2)] obtain t where
    "a = annoy_index s2\<lparr>idx_trees := t, idx_built := True\<rparr>" by auto
  with s2 empty_written(6)
  have "s' = s\<lparr>annoy_index :=
              \<lparr>idx_dim = embedding_dim s, idx_metric = Angular, idx_items = [],
               idx_trees = 0, idx_built = False, idx_loaded = False\<rparr>,
              index_file := Some (a\<lparr>idx_loaded := True\<rparr>)\<rparr>"
    by (simp add: unload_def)
  then show ?thesis by blast
next
  case (rebuilt s2 a)
  from rebuilt(1) obtain its where
    s2: "s2 = s\<lparr>annoy_index :=
              \<lparr>idx_dim = embedding_dim s, idx_metric = Angular, idx_items = its,
               idx_trees = 0, idx_built = False, idx_loaded = False\<rparr>\<rparr>"
    by (rule add_rows_fresh)
  from build_Inr[OF rebuilt(2)] obtain t where
    "a = annoy_index s2\<lparr>idx_trees := t, idx_built := True\<rparr>" by auto
  with s2 rebuilt(6)
  have "s' = s\<lparr>annoy_index :=
              \<lparr>idx_dim = embedding_dim s, idx_metric = Angular, idx_items = its,
               idx_trees = t, idx_built = True, idx_loaded = True\<rparr>,
              index_file := Some (a\<lparr>idx_loaded := True\<rparr>)\<rparr>"
    by simp
  then show ?thesis by blast
qed

lemma build_annoy_index_table:
  assumes "build_annoy_index env s = (out, s')"
  shows "concepts s' = concepts s" and "sqlite_sequence s' = sqlite_sequence s"
proof -
  from build_annoy_index_frame[OF assms] obtain its t b l saved where
    s': "s' = s\<lparr>annoy_index :=
                  \<lparr>idx_dim = embedding_dim s, idx_metric = Angular, idx_items = its,
                   idx_trees = t, idx_built = b, idx_loaded = l\<rparr>,
                index_file := saved\<rparr>"
    by blast
  show "concepts s' = concepts s" and "sqlite_sequence s' = sqlite_sequence s"
    by (simp_all add: s')
qed



subsection \<open>The index after a write\<close>



subsection \<open>What was stored is what is fetched\<close>

text \<open>A rebuild that succeeds has decoded the vector text of every row.\<close>

lemma add_rows_decodes:
  "add_rows env s rows = (Inr u, s') \<Longrightarrow> (i, v, m, t) \<in> set rows \<Longrightarrow>
     \<exists>j w. json_loads env v = Some j \<and> np_array env j = Some w \<and>
           length w = idx_dim (annoy_index s)"
proof (induction rows arbitrary: s)
  case Nil
  then show ?case by simp
next
  case (Cons r rows)
  obtain i' v' m' t' where r: "r = (i', v', m', t')" by (cases r)
  from Cons.prems(1)[unfolded r] show ?case
  proof (cases rule: add_rows_Cons_cases)
    case (added j w a)
    show ?thesis
    proof (cases "(i, v, m, t) = r")
      case True
      with r added(1,2) add_item_Inr[OF added(3)] show ?thesis by auto
    next
      case False
      with Cons.prems(2) have "(i, v, m, t) \<in> set rows" by simp
      from Cons.IH[OF added(4) this] add_item_Inr[OF added(3)] show ?thesis by simp
    qed
  qed simp_all
qed

lemma build_annoy_index_decodes:
  assumes "build_annoy_index env s = (Inr u, s')" and "(i, v, m, t) \<in> set (concepts s)"
  shows "\<exists>j w. json_loads env v = Some j \<and> np_array env j = Some w \<and> length w = embedding_dim s"
  using assms(1)
proof (cases rule: build_annoy_index_cases)
  case (rebuilt s2 a)
  from add_rows_decodes[OF rebuilt(1) assms(2)] show ?thesis
    by (simp add: AnnoyIndex_def)
qed simp_all

text \<open>
  Claim C5. When \<^verbatim>\<open>add_interaction(text, metadata)\<close> returns an id and the metadata is a
  value that survives the trip through \<^verbatim>\<open>json\<close>, the lookup of that id in the instance the
  call leaves finds a record with that id whose raw text and metadata are the inputs.
\<close>
theorem add_interaction_roundtrip:
  assumes "add_interaction env lib text md = (Inr i, lib')" and "json_roundtrip env md"
  shows "\<exists>h. fetch env (storage lib') i = Inr (Some h) \<and>
              hit_id h = i \<and> hit_raw_text h = text \<and> hit_metadata h = md"
proof -
  let ?r = "\<lparr>vector = tolist env (encode env text), metadata = md, raw_text = text\<rparr>"
  obtain o1 s1 where st: "store env (storage lib) ?r = (o1, s1)"
    by (cases "store env (storage lib) ?r")
  obtain o2 s2 where bd: "build_annoy_index env s1 = (o2, s2)"
    by (cases "build_annoy_index env s1")
  from assms(1) st bd have o1: "o1 = Inr i" and o2: "o2 = Inr ()" and lib': "storage lib' = s2"
    by (auto simp: add_interaction_def update_annoy_index_def split: sum.splits)
  from st o1 obtain v m where
    m: "json_dumps env md = Some m" and
    fresh: "new_rowid (concepts (storage lib)) (sqlite_sequence (storage lib)) = Some i" and
    s1: "concepts s1 = concepts (storage lib) @ [(i, v, m, text)]"
    by (auto elim!: store_Inr)
  from m assms(2) have md: "json_loads env m = Some md"
    by (simp add: json_roundtrip_def)
  from new_rowid_above(2)[OF fresh] have "\<forall>r \<in> set (concepts (storage lib)). \<not> fst r = i"
    by fastforce
  then have row: "fetch_row s1 i = Some (i, v, m, text)"
    by (simp add: fetch_row_def s1 find_append_new)
  from bd o2 s1 obtain j where j: "json_loads env v = Some j"
    using build_annoy_index_decodes[of env s1 "()" s2 i v m "text"] by auto
  from bd have "concepts s2 = concepts s1" by (rule build_annoy_index_table)
  with row have "fetch_row s2 i = Some (i, v, m, text)"
    by (simp add: fetch_row_def)
  with j md lib' have "fetch env (storage lib') i =
      Inr (Some \<lparr>hit_id = i, hit_vector = j, hit_metadata = md, hit_raw_text = text\<rparr>)"
    by (simp add: fetch_def hydrate_def)
  then show ?thesis by simp
qed

theorem add_interaction_roundtrip_witness:
  "add_interaction example_env (library_of apple_storage) ''banana'' fruit
     = (Inr 2, snd (add_interaction example_env (library_of apple_storage) ''banana'' fruit)) \<and>
   json_roundtrip example_env fruit \<and>
   fetch example_env
     (storage (snd (add_interaction example_env (library_of apple_storage) ''banana'' fruit))) 2
     = Inr (Some \<lparr>hit_id = 2, hit_vector = PyList [0, 1], hit_metadata = fruit,
                  hit_raw_text = ''banana''\<rparr>)"
proof -
  let ?lib = "snd (add_interaction example_env (library_of apple_storage) ''banana'' fruit)"
  have h: "add_interaction example_env (library_of apple_storage) ''banana'' fruit = (Inr 2, ?lib)"
    by code_simp
  have rt: "json_roundtrip example_env fruit"
    by code_simp
  have v: "fetch example_env (storage ?lib) 2
     = Inr (Some \<lparr>hit_id = 2, hit_vector = PyList [0, 1], hit_metadata = fruit,
                  hit_raw_text = ''banana''\<rparr>)"
    by code_simp
  from add_interaction_roundtrip[OF h rt] h rt v show ?thesis by simp
qed

subsection \<open>How a rebuild ends\<close>





subsection \<open>The metric of a rebuilt index\<close>

text \<open>
  Claim C2 on instances constructed with the euclidean metric. Where there is no index
  file, the index that startup builds is angular. Where a euclidean index file loads, the
  instance starts with a euclidean index, and the first write leaves it with an angular one.
\<close>
theorem rebuild_drops_constructed_metric:
  "SQLiteStorage example_env empty_disk ''concepts.db'' 2 Euclidean 10 = Inr fresh_storage \<and>
   idx_metric (annoy_index fresh_storage) = Angular \<and>
   SQLiteStorage example_env euclidean_disk ''concepts.db'' 2 Euclidean 10
     = Inr euclidean_storage \<and>
   idx_metric (annoy_index euclidean_storage) = Euclidean \<and>
   add_interaction example_env (library_of euclidean_storage) ''apple'' fruit
     = (Inr 1, library_of apple_storage) \<and>
   idx_metric (annoy_index apple_storage) = Angular"
  by code_simp

subsection \<open>Startup and the vector length\<close>

lemma load_error: "load env a file = Inl e \<Longrightarrow> e = OSError"
  by (auto simp: load_def split: if_splits option.splits)

lemma SQLiteStorage_loaded:
  assumes "usable_index env d dim m = Some a"
  shows "SQLiteStorage env d p dim m k =
           Inr \<lparr>concepts = create_table (disk_concepts d),
                sqlite_sequence = disk_sequence d,
                embedding_dim = dim,
                annoy_index = a,
                annoy_index_path = p @ ''.annoy'',
                n_trees = k,
                index_file = disk_index d\<rparr>"
  using assms
  by (auto simp: usable_index_def SQLiteStorage_def load_annoy_index_def Let_def
           split: option.splits sum.splits)

lemma SQLiteStorage_rebuilt:
  assumes "usable_index env d dim m = None"
  shows "SQLiteStorage env d p dim m k =
           (case build_annoy_index env
                   \<lparr>concepts = create_table (disk_concepts d),
                    sqlite_sequence = disk_sequence d,
                    embedding_dim = dim,
                    annoy_index = AnnoyIndex dim m,
                    annoy_index_path = p @ ''.annoy'',
                    n_trees = k,
                    index_file = disk_index d\<rparr> of
              (Inl e, s') \<Rightarrow> Inl e
            | (Inr u, s') \<Rightarrow> Inr s')"
  using assms
  by (auto simp: usable_index_def SQLiteStorage_def load_annoy_index_def Let_def
           split: option.splits sum.splits)

lemma build_annoy_index_empty:
  assumes "concepts s = []" and "writable env (annoy_index_path s)" and "n_trees s = 10"
  shows "build_annoy_index env s =
           (Inr (), s\<lparr>annoy_index :=
                        AnnoyIndex (embedding_dim s) Angular
                          \<lparr>idx_trees := 10, idx_built := True, idx_loaded := True\<rparr>,
                      index_file :=
                        Some (AnnoyIndex (embedding_dim s) Angular
                          \<lparr>idx_trees := 10, idx_built := True, idx_loaded := True\<rparr>)\<rparr>)"
  using assms
  by (simp add: build_annoy_index_def unload_def build_def trees_made_def in_c_int_def
        save_def load_def empty_file_def AnnoyIndex_def Let_def)

lemma build_annoy_index_first_row:
  assumes "concepts s = (i, v, m, t) # rows" and "json_loads env v = Some j"
    and "np_array env j = Some w" and "length w \<noteq> embedding_dim s"
  shows "fst (build_annoy_index env s) = Inl (if in_c_int i then IndexError else OverflowError)"
  using assms
  by (simp add: build_annoy_index_def unload_def add_item_def AnnoyIndex_def)

text \<open>
  Claim C3, as the program has it. Startup compares no vector lengths. A storage backend
  that the caller supplies is taken as it is, whatever its vector length. Without one, the
  storage is constructed for the encoder's vector length: when the index file loads,
  startup succeeds with the loaded index and the rows are not looked at; when it is missing
  or does not load, the index is rebuilt, which succeeds on an empty table if the file can
  be written, and raises \<^verbatim>\<open>IndexError\<close> when the first row holds a vector of another length
  (\<^verbatim>\<open>OverflowError\<close> when the id of that row does not fit a C \<^verbatim>\<open>int\<close>).
\<close>
theorem startup_without_dimension_check:
  "ConceptLibrary env d (Some b) = Inr \<lparr>lib_embedding_dim = encoder_dim env, storage = b\<rparr> \<and>
   (\<forall>a. usable_index env d (encoder_dim env) Angular = Some a \<longrightarrow>
      (\<exists>s. ConceptLibrary env d None = Inr \<lparr>lib_embedding_dim = encoder_dim env, storage = s\<rparr> \<and>
           annoy_index s = a \<and> concepts s = create_table (disk_concepts d))) \<and>
   (usable_index env d (encoder_dim env) Angular = None \<longrightarrow>
    create_table (disk_concepts d) = [] \<longrightarrow> writable env ''concepts.db.annoy'' \<longrightarrow>
      (\<exists>s. ConceptLibrary env d None = Inr \<lparr>lib_embedding_dim = encoder_dim env, storage = s\<rparr> \<and>
           annoy_index s =
             AnnoyIndex (encoder_dim env) Angular
               \<lparr>idx_trees := 10, idx_built := True, idx_loaded := True\<rparr>)) \<and>
   (\<forall>i v m t rows j w.
      usable_index env d (encoder_dim env) Angular = None \<longrightarrow>
      create_table (disk_concepts d) = (i, v, m, t) # rows \<longrightarrow>
      json_loads env v = Some j \<longrightarrow> np_array env j = Some w \<longrightarrow>
      length w \<noteq> encoder_dim env \<longrightarrow>
        ConceptLibrary env d None = Inl (if in_c_int i then IndexError else OverflowError))"
proof (intro conjI allI impI)
  show "ConceptLibrary env d (Some b) = Inr \<lparr>lib_embedding_dim = encoder_dim env, storage = b\<rparr>"
    by (simp add: ConceptLibrary_def)
next
  fix a
  assume "usable_index env d (encoder_dim env) Angular = Some a"
  from SQLiteStorage_loaded[OF this]
  show "\<exists>s. ConceptLibrary env d None = Inr \<lparr>lib_embedding_dim = encoder_dim env, storage = s\<rparr> \<and>
           annoy_index s = a \<and> concepts s = create_table (disk_concepts d)"
    by (simp add: ConceptLibrary_def)
next
  assume none: "usable_index env d (encoder_dim env) Angular = None"
    and empty: "create_table (disk_concepts d) = []"
    and w: "writable env ''concepts.db.annoy''"
  from build_annoy_index_empty[of _ env] empty w SQLiteStorage_rebuilt[OF none]
  show "\<exists>s. ConceptLibrary env d None = Inr \<lparr>lib_embedding_dim = encoder_dim env, storage = s\<rparr> \<and>
           annoy_index s =
             AnnoyIndex (encoder_dim env) Angular
               \<lparr>idx_trees := 10, idx_built := True, idx_loaded := True\<rparr>"
    by (simp add: ConceptLibrary_def)
next
  fix i v m t rows j w
  assume none: "usable_index env d (encoder_dim env) Angular = None"
    and rows: "create_table (disk_concepts d) = (i, v, m, t) # rows"
    and dec: "json_loads env v = Some j" "np_array env j = Some w"
    and len: "length w \<noteq> encoder_dim env"
  let ?s = "\<lparr>concepts = create_table (disk_concepts d),
             sqlite_sequence = disk_sequence d,
             embedding_dim = encoder_dim env,
             annoy_index = AnnoyIndex (encoder_dim env) Angular,
             annoy_index_path = ''concepts.db'' @ ''.annoy'',
             n_trees = 10,
             index_file = disk_index d\<rparr>"
  let ?e = "if in_c_int i then IndexError else OverflowError"
  have "fst (build_annoy_index env ?s) = Inl ?e"
    by (rule build_annoy_index_first_row[where v=v and m=m and t=t and rows=rows and j=j and w=w])
       (simp_all add: rows dec len)
  then obtain s' where "build_annoy_index env ?s = (Inl ?e, s')"
    by (cases "build_annoy_index env ?s") simp
  with SQLiteStorage_rebuilt[OF none, of "''concepts.db''" 10]
  show "ConceptLibrary env d None = Inl ?e"
    by (simp add: ConceptLibrary_def)
qed

theorem startup_without_dimension_check_witness:
  "ConceptLibrary example_env wide_disk (Some wide_storage) = Inr (library_of wide_storage) \<and>
   usable_index example_env (empty_disk\<lparr>disk_index := Some (built_index 2 [])\<rparr>) 2 Angular
     = Some (built_index 2 []) \<and>
   ConceptLibrary example_env (empty_disk\<lparr>disk_index := Some (built_index 2 [])\<rparr>) None
     = Inr (library_of fresh_storage) \<and>
   usable_index example_env wide_empty_disk 2 Angular = None \<and>
   create_table (disk_concepts wide_empty_disk) = [] \<and>
   writable example_env ''concepts.db.annoy'' \<and>
   ConceptLibrary example_env wide_empty_disk None = Inr (library_of fresh_storage) \<and>
   usable_index example_env wide_disk 2 Angular = None \<and>
   create_table (disk_concepts wide_disk) = [(1, ''[1, 0, 0]'', fruit_text, ''cherry'')] \<and>
   json_loads example_env ''[1, 0, 0]'' = Some (PyList [1, 0, 0]) \<and>
   np_array example_env (PyList [1, 0, 0]) = Some [1, 0, 0] \<and>
   length [1, 0, 0 :: int] \<noteq> encoder_dim example_env \<and>
   ConceptLibrary example_env wide_disk None = Inl IndexError"
proof -
  let ?d = "empty_disk\<lparr>disk_index := Some (built_index 2 [])\<rparr>"
  have a: "ConceptLibrary example_env wide_disk (Some wide_storage) = Inr (library_of wide_storage)"
    by code_simp
  have b1: "usable_index example_env ?d 2 Angular = Some (built_index 2 [])"
    by code_simp
  have b2: "ConceptLibrary example_env ?d None = Inr (library_of fresh_storage)"
    by code_simp
  have c1: "usable_index example_env wide_empty_disk 2 Angular = None"
    by code_simp
  have c2: "create_table (disk_concepts wide_empty_disk) = []"
    by code_simp
  have c3: "writable example_env ''concepts.db.annoy''"
    by code_simp
  have c4: "ConceptLibrary example_env wide_empty_disk None = Inr (library_of fresh_storage)"
    by code_simp
  have d1: "usable_index example_env wide_disk 2 Angular = None"
    by code_simp
  have d2: "create_table (disk_concepts wide_disk) = [(1, ''[1, 0, 0]'', fruit_text, ''cherry'')]"
    by code_simp
  have d3: "json_loads example_env ''[1, 0, 0]'' = Some (PyList [1, 0, 0])"
    by code_simp
  have d4: "np_array example_env (PyList [1, 0, 0]) = Some [1, 0, 0]"
    by code_simp
  have d5: "length [1, 0, 0 :: int] \<noteq> encoder_dim example_env"
    by code_simp
  have dim: "encoder_dim example_env = 2"
    by code_simp
  have d6: "in_c_int 1"
    by code_simp
  from startup_without_dimension_check[of example_env wide_disk wide_storage]
  have "ConceptLibrary example_env wide_disk None = Inl (if in_c_int 1 then IndexError else OverflowError)"
    using d1 d2 d3 d4 d5 dim by (metis (no_types))
  with d6 have "ConceptLibrary example_env wide_disk None = Inl IndexError"
    by simp
  moreover from startup_without_dimension_check[of example_env ?d wide_storage, unfolded dim] b1
  have "\<exists>s. ConceptLibrary example_env ?d None = Inr \<lparr>lib_embedding_dim = 2, storage = s\<rparr> \<and>
            annoy_index s = built_index 2 []"
    by blast
  moreover from startup_without_dimension_check[of example_env wide_empty_disk wide_storage]
    c1 c2 c3 dim
  have "\<exists>s. ConceptLibrary example_env wide_empty_disk None
              = Inr \<lparr>lib_embedding_dim = 2, storage = s\<rparr>"
    by auto
  ultimately show ?thesis using a b1 b2 c1 c2 c3 c4 d1 d2 d3 d4 d5 by simp
qed

text \<open>
  Claim C3 as stated fails: the encoder gives vectors of length 2; a backend of vector
  length 3 is accepted, and so is a database whose index file was written for length 3 and
  whose table is empty. Neither startup raises.
\<close>

theorem startup_dimension_mismatch_counterexample:
  "encoder_dim example_env = 2 \<and>
   embedding_dim wide_storage = 3 \<and>
   idx_dim (annoy_index wide_storage) = 3 \<and>
   ConceptLibrary example_env wide_disk (Some wide_storage) = Inr (library_of wide_storage) \<and>
   disk_index wide_empty_disk = Some (built_index 3 []) \<and>
   ConceptLibrary example_env wide_empty_disk None = Inr (library_of fresh_storage)"
  by code_simp

subsection \<open>Ids are issued once\<close>

lemma max_rowid_snoc:
  "max_rowid (rows @ [r]) =
     Some (case max_rowid rows of None \<Rightarrow> fst r | Some m \<Rightarrow> max m (fst r))"
  by (induction rows) (auto split: option.splits)

lemma high_water_sequence: "sqlite_sequence s \<le> high_water s"
  by (simp add: high_water_def split: option.splits)

lemma high_water_rows: "r \<in> set (concepts s) \<Longrightarrow> fst r \<le> high_water s"
  by (cases "max_rowid (concepts s)")
     (auto simp: high_water_def max_rowid_None dest: max_rowid_bound)

lemma store_raises_high_water:
  assumes "store env s r = (Inr i, s')"
  shows "high_water s < i" and "high_water s' = i"
proof -
  from assms obtain v m where
    new: "new_rowid (concepts s) (sqlite_sequence s) = Some i" and
    s': "s' = s\<lparr>concepts := concepts s @ [(i, v, m, raw_text r)], sqlite_sequence := i\<rparr>"
    by (auto elim!: store_Inr)
  from new show above: "high_water s < i"
    by (auto simp: high_water_def new_rowid_def split: option.splits if_splits)
  then show "high_water s' = i"
    by (auto simp: s' high_water_def max_rowid_snoc split: option.splits)
qed

lemma update_annoy_index_high_water:
  "high_water (snd (update_annoy_index env s i v)) = high_water s"
proof -
  obtain out s' where b: "build_annoy_index env s = (out, s')"
    by (cases "build_annoy_index env s")
  from build_annoy_index_table[OF b] b show ?thesis
    by (simp add: update_annoy_index_def high_water_def split: option.splits)
qed

lemma issued_ids_above:
  "sorted_wrt (<) (issued_ids env s calls) \<and>
   (\<forall>i \<in> set (issued_ids env s calls). high_water s < i)"
proof (induction calls arbitrary: s)
  case Nil
  show ?case by simp
next
  case (Cons c calls)
  show ?case
  proof (cases c)
    case (Store r)
    obtain out s' where st: "store env s r = (out, s')"
      by (cases "store env s r")
    show ?thesis
    proof (cases out)
      case (Inl e)
      with st have "s' = s" by (simp add: store_Inl)
      with Cons.IH[of s] Store st Inl show ?thesis by simp
    next
      case (Inr i)
      with st have "high_water s < i" "high_water s' = i"
        by (simp_all add: store_raises_high_water)
      with Cons.IH[of s'] Store st Inr show ?thesis by fastforce
    qed
  next
    case (UpdateIndex i v)
    with Cons.IH[of "snd (update_annoy_index env s i v)"] show ?thesis
      by (simp add: update_annoy_index_high_water)
  next
    case (Search q k)
    with Cons.IH[of s] show ?thesis by simp
  qed
qed

text \<open>
  Claim C6. Whatever calls a client makes on an instance, the ids that its successful
  \<^verbatim>\<open>store\<close> calls return are pairwise distinct (they increase strictly), and each of them
  is new: larger than the counter of the instance the calls started from, and the id of no
  row that instance held.
\<close>
theorem issued_ids_fresh:
  "distinct (issued_ids env s calls) \<and>
   sorted_wrt (<) (issued_ids env s calls) \<and>
   (\<forall>i \<in> set (issued_ids env s calls). sqlite_sequence s < i \<and> i \<notin> fst ` set (concepts s))"
proof -
  from issued_ids_above[of env s calls]
  have sorted: "sorted_wrt (<) (issued_ids env s calls)"
    and above: "\<forall>i \<in> set (issued_ids env s calls). high_water s < i"
    by simp_all
  from sorted have "distinct (issued_ids env s calls)"
    by (simp add: strict_sorted_iff)
  moreover have "sqlite_sequence s < i \<and> i \<notin> fst ` set (concepts s)"
    if "i \<in> set (issued_ids env s calls)" for i
  proof -
    from that above have hw: "high_water s < i" by simp
    with high_water_sequence[of s] have "sqlite_sequence s < i" by simp
    moreover have "i \<notin> fst ` set (concepts s)"
    proof
      assume "i \<in> fst ` set (concepts s)"
      then obtain r where "r \<in> set (concepts s)" "fst r = i" by auto
      with high_water_rows[of r s] hw show False by simp
    qed
    ultimately show ?thesis ..
  qed
  ultimately show ?thesis using sorted by simp
qed

theorem issued_ids_fresh_witness:
  "issued_ids example_env apple_storage
     [Store \<lparr>vector = PyList [0, 1], metadata = fruit, raw_text = ''banana''\<rparr>,
      UpdateIndex 2 [0, 1],
      Store \<lparr>vector = PyList [1, 0], metadata = PyObject, raw_text = ''pear''\<rparr>,
      Search [1, 0] 3,
      Store \<lparr>vector = PyList [1, 0], metadata = fruit, raw_text = ''cherry''\<rparr>] = [2, 3] \<and>
   distinct [2, 3 :: int] \<and>
   sqlite_sequence apple_storage < 2 \<and> 2 \<notin> fst ` set (concepts apple_storage) \<and>
   sqlite_sequence apple_storage < 3 \<and> 3 \<notin> fst ` set (concepts apple_storage)"
proof -
  let ?calls = "[Store \<lparr>vector = PyList [0, 1], metadata = fruit, raw_text = ''banana''\<rparr>,
      UpdateIndex 2 [0, 1],
      Store \<lparr>vector = PyList [1, 0], metadata = PyObject, raw_text = ''pear''\<rparr>,
      Search [1, 0] 3,
      Store \<lparr>vector = PyList [1, 0], metadata = fruit, raw_text = ''cherry''\<rparr>]"
  have run: "issued_ids example_env apple_storage ?calls = [2, 3]"
    by code_simp
  have "distinct [2, 3 :: int] \<and> sorted_wrt (<) [2, 3 :: int] \<and>
        (\<forall>i \<in> set [2, 3 :: int].
           sqlite_sequence apple_storage < i \<and> i \<notin> fst ` set (concepts apple_storage))"
    using issued_ids_fresh[of example_env apple_storage ?calls] unfolding run .
  with run show ?thesis by auto
qed

subsection \<open>Ids without a row\<close>

lemma fetch_row_id: "fetch_row s i = Some r \<Longrightarrow> fst r = i"
  by (auto simp: fetch_row_def dest: find_Some_iff[THEN iffD1])

lemma hydrate_id: "hydrate env r = Inr h \<Longrightarrow> hit_id h = fst r"
  by (auto simp: hydrate_def split: prod.splits option.splits)

text \<open>The loop, told by what it appends to the results it starts from.\<close>

lemma search_loop_hydrate_rows:
  "search_loop env s ids results =
     (case hydrate_rows env (List.map_filter (fetch_row s) ids) of
        Inl e \<Rightarrow> Inl e
      | Inr hs \<Rightarrow> Inr (results @ hs))"
proof (induction ids arbitrary: results)
  case Nil
  show ?case by simp
next
  case (Cons i ids)
  show ?case
  proof (cases "fetch_row s i")
    case None
    with Cons.IH[of results] show ?thesis by simp
  next
    case (Some r)
    show ?thesis
    proof (cases "hydrate env r")
      case (Inl e)
      with Some show ?thesis by simp
    next
      case (Inr h)
      with Some Cons.IH[of "results @ [h]"] show ?thesis
        by (simp split: sum.splits)
    qed
  qed
qed

lemma hydrate_rows_ids: "hydrate_rows env rows = Inr hs \<Longrightarrow> map hit_id hs = map fst rows"
proof (induction rows arbitrary: hs)
  case Nil
  then show ?case by simp
next
  case (Cons r rows)
  then show ?case
    by (auto split: sum.splits dest: hydrate_id)
qed

lemma hydrate_rows_error:
  "hydrate_rows env rows = Inl e \<Longrightarrow> \<exists>r \<in> set rows. hydrate env r = Inl e"
proof (induction rows)
  case Nil
  then show ?case by simp
next
  case (Cons r rows)
  then show ?case
    by (auto split: sum.splits)
qed

lemma map_filter_fetch_row_ids:
  "map fst (List.map_filter (fetch_row s) ids) = filter (\<lambda>i. fetch_row s i \<noteq> None) ids"
  by (induction ids) (auto simp: fetch_row_id split: option.splits)

text \<open>
  Claim C8. When the index answers a query with a list of ids, \<^verbatim>\<open>search\<close> returns what the
  rows found for those ids give, in the order of the ids; an id without a row contributes
  nothing. So the ids of the results are the ids that have a row, and when \<^verbatim>\<open>search\<close>
  raises, the exception comes from a row that was found and does not decode, never from an
  id without a row.
\<close>
theorem search_skips_dangling_ids:
  assumes "get_nns_by_vector env (annoy_index s) q k = Inr ids"
  shows "search env s q k = hydrate_rows env (List.map_filter (fetch_row s) ids) \<and>
         (\<forall>hs. search env s q k = Inr hs \<longrightarrow>
            map hit_id hs = filter (\<lambda>i. fetch_row s i \<noteq> None) ids) \<and>
         (\<forall>e. search env s q k = Inl e \<longrightarrow>
            (\<exists>i \<in> set ids. \<exists>r. fetch_row s i = Some r \<and> hydrate env r = Inl e))"
proof -
  from assms have eq: "search env s q k = hydrate_rows env (List.map_filter (fetch_row s) ids)"
    by (simp add: search_def search_loop_hydrate_rows split: sum.splits)
  have "map hit_id hs = filter (\<lambda>i. fetch_row s i \<noteq> None) ids"
    if "search env s q k = Inr hs" for hs
    using that eq hydrate_rows_ids[of env _ hs] by (simp add: map_filter_fetch_row_ids)
  moreover have "\<exists>i \<in> set ids. \<exists>r. fetch_row s i = Some r \<and> hydrate env r = Inl e"
    if "search env s q k = Inl e" for e
  proof -
    from that eq obtain r where "r \<in> set (List.map_filter (fetch_row s) ids)" "hydrate env r = Inl e"
      by (auto dest: hydrate_rows_error)
    from this(1) have "\<exists>i \<in> set ids. fetch_row s i = Some r"
      by (auto simp: List.map_filter_def)
    with \<open>hydrate env r = Inl e\<close> show ?thesis by blast
  qed
  ultimately show ?thesis using eq by blast
qed

theorem search_skips_dangling_ids_witness:
  "get_nns_by_vector example_env (annoy_index dangling_storage) [1, 0] 5 = Inr [2, 1] \<and>
   fetch_row dangling_storage 2 = None \<and>
   search example_env dangling_storage [1, 0] 5
     = Inr [\<lparr>hit_id = 1, hit_vector = PyList [1, 0], hit_metadata = fruit,
              hit_raw_text = ''apple''\<rparr>]"
proof -
  have ids: "get_nns_by_vector example_env (annoy_index dangling_storage) [1, 0] 5 = Inr [2, 1]"
    by code_simp
  have none: "fetch_row dangling_storage 2 = None"
    by code_simp
  have rows: "hydrate_rows example_env (List.map_filter (fetch_row dangling_storage) [2, 1])
     = Inr [\<lparr>hit_id = 1, hit_vector = PyList [1, 0], hit_metadata = fruit,
              hit_raw_text = ''apple''\<rparr>]"
    by code_simp
  from search_skips_dangling_ids[OF ids] ids none rows show ?thesis by simp
qed

end
